theory Spec2Isabelle
  imports Main
begin

section \<open>Values of the JavaScript runtime\<close>

text \<open>
  The note store is the React hook \<open>useNotes\<close> (hooks/useNotes.ts) together with the
  import handler \<open>handleFileChange\<close> of components/NoteSidebar.tsx. TypeScript types are
  erased at run time, and the records the hook reads back from \<open>localStorage\<close> or from
  an import file are typed \<open>any\<close>, so the fields of a note hold run-time values.

  \<open>jsval\<close> is the part of the JavaScript values that JSON text can carry in a field of
  a note: \<open>JUndefined\<close> is an absent key, numbers are the integers, and \<open>JStr s\<close> is the
  string \<open>s\<close>. The strings of the fields \<open>id\<close>, \<open>title\<close>, \<open>content\<close> and \<open>language\<close> are
  always written \<open>JStr\<close>. In a timestamp field, where the code hands the value to
  \<open>new Date\<close>, a string is written by what \<open>Date.parse\<close> makes of it: \<open>JIso t\<close> is the
  ISO-8601 text that \<open>Date.prototype.toISOString\<close> gives for the time value \<open>t\<close>
  (milliseconds since the epoch), \<open>JDateText s t\<close> is another string \<open>s\<close> that the engine
  reads as the time value \<open>t\<close> (\<open>2024-01-01\<close>, say), and \<open>JStr s\<close> is a string that it reads
  as no date. Nested objects and arrays as field values are left out.
\<close>

datatype jsval =
    JUndefined
  | JNull
  | JBool bool
  | JNum int
  | JStr string
  | JIso int
  | JDateText string int

text \<open>A \<open>Date\<close> object holds a time value in milliseconds, or is an Invalid Date.\<close>

datatype date = Date int | InvalidDate

text \<open>JavaScript truthiness, and \<open>a || b\<close>.\<close>

fun truthy :: "jsval \<Rightarrow> bool" where
  "truthy JUndefined = False"
| "truthy JNull = False"
| "truthy (JBool b) = b"
| "truthy (JNum n) = (n \<noteq> 0)"
| "truthy (JStr s) = (s \<noteq> [])"
| "truthy (JIso t) = True"
| "truthy (JDateText s t) = (s \<noteq> [])"

definition js_or :: "jsval \<Rightarrow> jsval \<Rightarrow> jsval" where
  "js_or a b = (if truthy a then a else b)"

text \<open>
  \<open>new Date(v)\<close>: no argument value (undefined) gives an Invalid Date, \<open>null\<close> and the
  booleans convert to the numbers 0 and 1, a number is clipped to the range of time
  values, and a string becomes what \<open>Date.parse\<close> reads in it: the time value of a
  date-time text, an Invalid Date for any other string.
\<close>

definition maxTime :: int where
  "maxTime = 8640000000000000"

definition TimeClip :: "int \<Rightarrow> date" where
  "TimeClip n = (if maxTime < abs n then InvalidDate else Date n)"

fun new_Date :: "jsval \<Rightarrow> date" where
  "new_Date JUndefined = InvalidDate"
| "new_Date JNull = Date 0"
| "new_Date (JBool b) = Date (if b then 1 else 0)"
| "new_Date (JNum n) = TimeClip n"
| "new_Date (JStr s) = InvalidDate"
| "new_Date (JIso t) = Date t"
| "new_Date (JDateText s t) = TimeClip t"

text \<open>\<open>Date.prototype.toJSON\<close>: the ISO text, or \<open>null\<close> for an Invalid Date.\<close>

fun toJSON :: "date \<Rightarrow> jsval" where
  "toJSON (Date t) = JIso t"
| "toJSON InvalidDate = JNull"

text \<open>
  Comparison of two dates (\<open>a <= b\<close>, \<open>a < b\<close> on their time values): every comparison
  with an Invalid Date (NaN) is false.
\<close>

fun date_le :: "date \<Rightarrow> date \<Rightarrow> bool" where
  "date_le (Date a) (Date b) = (a \<le> b)"
| "date_le _ _ = False"

fun date_less :: "date \<Rightarrow> date \<Rightarrow> bool" where
  "date_less (Date a) (Date b) = (a < b)"
| "date_less _ _ = False"

text \<open>\<open>Number.prototype.toString\<close> on an integer: its decimal digits.\<close>

fun digits :: "nat \<Rightarrow> string" where
  "digits n =
     (if n < 10 then [''0123456789'' ! n]
      else digits (n div 10) @ [''0123456789'' ! (n mod 10)])"

declare digits.simps [simp del]

definition toString :: "int \<Rightarrow> string" where
  "toString n = (if n < 0 then CHR ''-'' # digits (nat (- n)) else digits (nat n))"

section \<open>Notes, their JSON form, and the store\<close>

text \<open>
  \<open>Note\<close> (types/note.ts): \<open>id\<close>, \<open>title\<close>, \<open>content\<close>, \<open>language\<close>, \<open>createdAt\<close>,
  \<open>updatedAt\<close>. Every path that builds a note in memory wraps the two timestamps in
  \<open>new Date(...)\<close>, so they are dates; the other four fields are whatever the record
  carried. Properties of a decoded record other than these six are carried along
  unchanged by the spread \<open>...note\<close> and are left out.
\<close>

record Note =
  id_note :: jsval
  title :: jsval
  content :: jsval
  language :: jsval
  createdAt :: date
  updatedAt :: date

text \<open>An object of a decoded JSON array, before the timestamps are rehydrated.\<close>

record jrecord =
  j_id :: jsval
  j_title :: jsval
  j_content :: jsval
  j_language :: jsval
  j_createdAt :: jsval
  j_updatedAt :: jsval

text \<open>
  A string handed to \<open>JSON.parse\<close> is modelled by what the parser makes of it:
  \<open>NotJson s\<close> is a string \<open>s\<close> that is not JSON text (\<open>JSON.parse\<close> throws a
  SyntaxError; the empty string is one of them), \<open>Json v\<close> is the JSON text of the value
  \<open>v\<close>, an array of objects or something that is not an array.
\<close>

datatype json = Array "jrecord list" | NotArray

datatype stored = NotJson string | Json json

datatype error = SyntaxError | TypeError

fun JSON_parse :: "stored \<Rightarrow> error + json" where
  "JSON_parse (NotJson s) = Inl SyntaxError"
| "JSON_parse (Json v) = Inr v"

text \<open>Truthiness of a string: only the empty string is falsy.\<close>

fun nonempty :: "stored \<Rightarrow> bool" where
  "nonempty (NotJson s) = (s \<noteq> [])"
| "nonempty (Json v) = True"

text \<open>
  \<open>JSON.stringify\<close> of the collection: each note becomes an object, its dates through
  \<open>toJSON\<close>; a key whose value is undefined is dropped, that is, stays absent.
\<close>

definition stringify_note :: "Note \<Rightarrow> jrecord" where
  "stringify_note n =
     \<lparr>j_id = id_note n, j_title = title n, j_content = content n,
      j_language = language n, j_createdAt = toJSON (createdAt n),
      j_updatedAt = toJSON (updatedAt n)\<rparr>"

definition JSON_stringify :: "Note list \<Rightarrow> stored" where
  "JSON_stringify ns = Json (Array (map stringify_note ns))"

text \<open>
  The state of the hook: the React state \<open>notes\<close> (here \<open>notes_state\<close>) and the value of \<open>localStorage\<close> at the
  key \<open>STORAGE_KEY\<close> (\<open>None\<close> when the key is absent). Every operation is taken to run on
  the collection of the latest render, one event handler after the other.
\<close>

record store =
  notes_state :: "Note list"
  localStorage :: "stored option"

definition saveNotes :: "Note list \<Rightarrow> store \<Rightarrow> store" where
  "saveNotes newNotes s =
     s\<lparr>notes_state := newNotes, localStorage := Some (JSON_stringify newNotes)\<rparr>"

subsection \<open>Mounting: the effect of \<open>useNotes\<close>\<close>

definition parsedNotes :: "jrecord list \<Rightarrow> Note list" where
  "parsedNotes js =
     map (\<lambda>j. \<lparr>id_note = j_id j, title = j_title j, content = j_content j,
               language = js_or (j_language j) (JStr ''plaintext''),
               createdAt = new_Date (j_createdAt j),
               updatedAt = new_Date (j_updatedAt j)\<rparr>) js"

definition welcomeTitle :: string where
  "welcomeTitle = ''Welcome to Swift Notes''"

definition bullet :: string where
  "bullet = [CHR 0xE2, CHR 0x80, CHR 0xA2]"

definition welcomeContent :: string where
  "welcomeContent =
     ''Start writing your thoughts here. This is a simple and elegant notes app '' @
     ''where you can create, edit, and organize your notes.'' @ [CHR 0x0A, CHR 0x0A] @
     ''Features:'' @ [CHR 0x0A] @
     bullet @ '' Clean, distraction-free writing'' @ [CHR 0x0A] @
     bullet @ '' Auto-save functionality'' @ [CHR 0x0A] @
     bullet @ '' Search through your notes'' @ [CHR 0x0A] @
     bullet @ '' Elegant design'' @ [CHR 0x0A, CHR 0x0A] @
     ''Click the '' @ [CHR 0x22] @ ''+'' @ [CHR 0x22] @ '' button to create a new note!''"

text \<open>
  The welcome note; \<open>now1\<close> and \<open>now2\<close> are the clock readings of its two \<open>new Date()\<close>.
  In \<open>welcomeContent\<close> the bullet U+2022 is written as its three UTF-8 bytes.
\<close>

definition welcomeNote :: "int \<Rightarrow> int \<Rightarrow> Note" where
  "welcomeNote now1 now2 =
     \<lparr>id_note = JStr ''1'', title = JStr welcomeTitle, content = JStr welcomeContent,
      language = JStr ''plaintext'', createdAt = Date now1, updatedAt = Date now2\<rparr>"

text \<open>
  The \<open>else\<close> branch of the effect: the store once the welcome note is set and saved.
\<close>

definition mounted :: "int \<Rightarrow> int \<Rightarrow> store" where
  "mounted now1 now2 =
     \<lparr>notes_state = [welcomeNote now1 now2],
      localStorage = Some (JSON_stringify [welcomeNote now1 now2])\<rparr>"

text \<open>
  The effect that runs once when the hook mounts, on the value \<open>savedNotes\<close> found at the
  key: \<open>if (savedNotes)\<close> is false for an absent key and for the empty string. Nothing in
  the hook catches what \<open>JSON.parse\<close> or \<open>.map\<close> throws: the exception leaves the
  effect, which is the \<open>Inl\<close> result. \<open>.map\<close> on a value that is not an array is a
  TypeError.
\<close>

definition useNotes_effect :: "int \<Rightarrow> int \<Rightarrow> stored option \<Rightarrow> error + store" where
  "useNotes_effect now1 now2 savedNotes =
     (case savedNotes of
        None \<Rightarrow> Inr (mounted now1 now2)
      | Some txt \<Rightarrow>
          if nonempty txt then
            (case JSON_parse txt of
               Inl e \<Rightarrow> Inl e
             | Inr NotArray \<Rightarrow> Inl TypeError
             | Inr (Array js) \<Rightarrow> Inr \<lparr>notes_state = parsedNotes js, localStorage = savedNotes\<rparr>)
          else Inr (mounted now1 now2))"

subsection \<open>The operations of the hook\<close>

text \<open>
  \<open>createNote\<close>: \<open>now_id\<close> is the reading of \<open>Date.now()\<close> for the id, \<open>now_created\<close> and
  \<open>now_updated\<close> those of the two \<open>new Date()\<close>. It returns the new note.
\<close>

definition createNote :: "int \<Rightarrow> int \<Rightarrow> int \<Rightarrow> store \<Rightarrow> Note \<times> store" where
  "createNote now_id now_created now_updated s =
     (let newNote = \<lparr>id_note = JStr (toString now_id), title = JStr ''Untitled Note'',
                      content = JStr '''', language = JStr ''plaintext'',
                      createdAt = Date now_created, updatedAt = Date now_updated\<rparr>;
          updatedNotes = newNote # notes_state s
      in (newNote, saveNotes updatedNotes s))"

text \<open>
  \<open>updates: Partial<Omit<Note, 'id' | 'createdAt'>>\<close>: each of \<open>title\<close>, \<open>content\<close>,
  \<open>language\<close> and \<open>updatedAt\<close> is given or not. The editor passes strings
  (\<open>handleLanguageChange(value: string)\<close>), so the three text fields are strings here.
\<close>

record updates =
  upd_title :: "string option"
  upd_content :: "string option"
  upd_language :: "string option"
  upd_updatedAt :: "date option"

text \<open>
  \<open>{ ...note, ...updates, updatedAt: new Date() }\<close>: the given fields overwrite, and the
  \<open>updatedAt\<close> written last overwrites one that \<open>updates\<close> may carry.
\<close>

definition spread :: "Note \<Rightarrow> updates \<Rightarrow> Note" where
  "spread n u =
     n\<lparr>title := (case upd_title u of None \<Rightarrow> title n | Some v \<Rightarrow> JStr v),
       content := (case upd_content u of None \<Rightarrow> content n | Some v \<Rightarrow> JStr v),
       language := (case upd_language u of None \<Rightarrow> language n | Some v \<Rightarrow> JStr v),
       updatedAt := (case upd_updatedAt u of None \<Rightarrow> updatedAt n | Some d \<Rightarrow> d)\<rparr>"

text \<open>
  \<open>updateNote\<close>. The callback of \<open>notes.map\<close> evaluates \<open>new Date()\<close> once for every note
  that matches: \<open>now k\<close> is the reading of the clock taken at the note of index \<open>k\<close>.
\<close>

definition updateNote :: "(nat \<Rightarrow> int) \<Rightarrow> string \<Rightarrow> updates \<Rightarrow> store \<Rightarrow> store" where
  "updateNote now i u s =
     (let updatedNotes =
            map (\<lambda>(k, n). if id_note n = JStr i
                           then (spread n u)\<lparr>updatedAt := Date (now k)\<rparr> else n)
              (enumerate 0 (notes_state s))
      in saveNotes updatedNotes s)"

definition deleteNote :: "string \<Rightarrow> store \<Rightarrow> store" where
  "deleteNote i s =
     (let updatedNotes = filter (\<lambda>n. id_note n \<noteq> JStr i) (notes_state s)
      in saveNotes updatedNotes s)"

definition importNotes :: "Note list \<Rightarrow> store \<Rightarrow> store" where
  "importNotes importedNotes s =
     (let existingIds = set (map id_note (notes_state s));
          newNotes = filter (\<lambda>n. id_note n \<notin> existingIds) importedNotes;
          updatedNotes = newNotes @ notes_state s
      in saveNotes updatedNotes s)"

subsection \<open>Import: \<open>handleFileChange\<close> of the sidebar\<close>

text \<open>
  The clock and random readings taken while one imported record is normalised:
  \<open>Date.now()\<close> for a missing id, the text of \<open>Math.random()\<close> appended to it, and
  \<open>Date.now()\<close> for a missing \<open>createdAt\<close> and a missing \<open>updatedAt\<close>.
\<close>

record readings =
  r_now_id :: int
  r_random :: string
  r_now_created :: int
  r_now_updated :: int

definition validNote :: "readings \<Rightarrow> jrecord \<Rightarrow> Note" where
  "validNote r j =
     \<lparr>id_note = js_or (j_id j) (JStr (toString (r_now_id r) @ r_random r)),
      title = j_title j, content = j_content j,
      language = js_or (j_language j) (JStr ''plaintext''),
      createdAt = new_Date (js_or (j_createdAt j) (JNum (r_now_created r))),
      updatedAt = new_Date (js_or (j_updatedAt j) (JNum (r_now_updated r)))\<rparr>"

text \<open>\<open>env k\<close> holds the readings taken at the record of index \<open>k\<close>.\<close>

definition validNotes :: "(nat \<Rightarrow> readings) \<Rightarrow> jrecord list \<Rightarrow> Note list" where
  "validNotes env js = map (\<lambda>(k, j). validNote (env k) j) (enumerate 0 js)"

text \<open>
  The \<open>onload\<close> handler on the text of the chosen file (\<open>content\<close> in the source). The \<open>try\<close> block catches what
  \<open>JSON.parse\<close> throws and alerts the user: the second component says whether the
  alert was shown. A value that is not an array is ignored. \<open>onImportNotes\<close> is
  \<open>importNotes\<close> of the hook (through \<open>handleImportNotes\<close> of pages/Index.tsx).
\<close>

definition handleFileChange :: "(nat \<Rightarrow> readings) \<Rightarrow> stored \<Rightarrow> store \<Rightarrow> store \<times> bool" where
  "handleFileChange env fileText s =
     (case JSON_parse fileText of
        Inl e \<Rightarrow> (s, True)
      | Inr NotArray \<Rightarrow> (s, False)
      | Inr (Array js) \<Rightarrow> (importNotes (validNotes env js) s, False))"

subsection \<open>The language tags of the editor\<close>

text \<open>The \<open>value\<close>s of the table \<open>languages\<close> of components/NoteEditor.tsx.\<close>

definition languages :: "string list" where
  "languages =
     [''plaintext'', ''javascript'', ''typescript'', ''html'', ''css'', ''lua'', ''python'',
      ''java'', ''cpp'', ''json'', ''markdown'', ''xml'', ''sql'', ''php'', ''go'', ''rust'']"

section \<open>Collections that the operations produce\<close>

text \<open>
  The language that an update carries is a tag of the editor's table: the data model
  draws \<open>language\<close> from this fixed set, and \<open>handleLanguageChange\<close>, the one caller that
  sets it, passes the value of the \<open>Select\<close> over the table.
\<close>

definition tableLanguage :: "updates \<Rightarrow> bool" where
  "tableLanguage u = (case upd_language u of None \<Rightarrow> True | Some l \<Rightarrow> l \<in> set languages)"

text \<open>
  \<open>produced s\<close>: the store \<open>s\<close> comes from mounting on an empty \<open>localStorage\<close>
  (\<open>mounted\<close>: the welcome note, saved) by a sequence of \<open>createNote\<close>, \<open>updateNote\<close> and
  \<open>deleteNote\<close>.
\<close>

inductive produced :: "store \<Rightarrow> bool" where
  produced_mount: "produced (mounted now1 now2)"
| produced_create: "produced s \<Longrightarrow> produced (snd (createNote now_id now_created now_updated s))"
| produced_update: "produced s \<Longrightarrow> tableLanguage u \<Longrightarrow> produced (updateNote now i u s)"
| produced_delete: "produced s \<Longrightarrow> produced (deleteNote i s)"

text \<open>
  \<open>in_order t n\<close>: the note was created no later than it was last updated, and last
  updated no later than the clock reading \<open>t\<close>.
\<close>

definition in_order :: "int \<Rightarrow> Note \<Rightarrow> bool" where
  "in_order t n = (date_le (createdAt n) (updatedAt n) \<and> date_le (updatedAt n) (Date t))"

text \<open>
  \<open>clocked t s\<close>: the store \<open>s\<close> is reached by mounting (on an empty \<open>localStorage\<close> or on
  a stored array) and then by \<open>createNote\<close>, \<open>updateNote\<close>, \<open>deleteNote\<close> and imports,
  while the readings of the clock never decrease, \<open>t\<close> being the latest reading, and
  while every note that comes in from storage or from a file (a record whose id exists
  does not come in) is \<open>in_order\<close> at the reading of its arrival.
\<close>

inductive clocked :: "int \<Rightarrow> store \<Rightarrow> bool" where
  clocked_mount: "now1 \<le> now2 \<Longrightarrow> clocked now2 (mounted now1 now2)"
| clocked_load:
    "\<forall>n \<in> set (parsedNotes js). in_order t n \<Longrightarrow>
     clocked t \<lparr>notes_state = parsedNotes js, localStorage = Some (Json (Array js))\<rparr>"
| clocked_create:
    "clocked t s \<Longrightarrow> t \<le> now_id \<Longrightarrow> now_id \<le> now_created \<Longrightarrow> now_created \<le> now_updated \<Longrightarrow>
     clocked now_updated (snd (createNote now_id now_created now_updated s))"
| clocked_update:
    "clocked t s \<Longrightarrow> t \<le> t' \<Longrightarrow> \<forall>k < length (notes_state s). t \<le> now k \<and> now k \<le> t' \<Longrightarrow>
     clocked t' (updateNote now i u s)"
| clocked_delete: "clocked t s \<Longrightarrow> clocked t (deleteNote i s)"
| clocked_import:
    "clocked t s \<Longrightarrow> t \<le> t' \<Longrightarrow>
     \<forall>n \<in> set (validNotes env js). id_note n \<in> set (map id_note (notes_state s)) \<or> in_order t' n \<Longrightarrow>
     clocked t' (fst (handleFileChange env (Json (Array js)) s))"

text \<open>
  \<open>survives n\<close>: the note has a truthy \<open>language\<close> and two valid dates; these are the
  notes that saving and loading give back as they were.
\<close>

definition survives :: "Note \<Rightarrow> bool" where
  "survives n = (truthy (language n) \<and> createdAt n \<noteq> InvalidDate \<and> updatedAt n \<noteq> InvalidDate)"

text \<open>Small stores, records and arguments for the worked examples.\<close>

definition emptyStore :: store where
  "emptyStore = \<lparr>notes_state = [], localStorage = None\<rparr>"

definition exampleNote :: "string \<Rightarrow> string \<Rightarrow> string \<Rightarrow> int \<Rightarrow> Note" where
  "exampleNote i t c t0 =
     \<lparr>id_note = JStr i, title = JStr t, content = JStr c, language = JStr ''plaintext'',
      createdAt = Date 0, updatedAt = Date t0\<rparr>"

definition exampleRecord :: "string \<Rightarrow> string \<Rightarrow> jsval \<Rightarrow> jsval \<Rightarrow> jsval \<Rightarrow> jrecord" where
  "exampleRecord i t l c u =
     \<lparr>j_id = JStr i, j_title = JStr t, j_content = JStr [], j_language = l,
      j_createdAt = c, j_updatedAt = u\<rparr>"

definition noUpdates :: updates where
  "noUpdates = \<lparr>upd_title = None, upd_content = None, upd_language = None,
                 upd_updatedAt = None\<rparr>"

definition fixedReadings :: "nat \<Rightarrow> readings" where
  "fixedReadings k =
     \<lparr>r_now_id = 5000, r_random = ''0.25'', r_now_created = 5000, r_now_updated = 5000\<rparr>"

section \<open>Facts about the store that the claims share\<close>

lemma notes_saveNotes: "notes_state (saveNotes ns s) = ns"
  by (simp add: saveNotes_def)

lemma localStorage_saveNotes: "localStorage (saveNotes ns s) = Some (JSON_stringify ns)"
  by (simp add: saveNotes_def)

lemma notes_deleteNote:
  "notes_state (deleteNote i s) = filter (\<lambda>n. id_note n \<noteq> JStr i) (notes_state s)"
  by (simp add: deleteNote_def Let_def notes_saveNotes)

lemma notes_updateNote:
  "notes_state (updateNote now i u s) =
     map (\<lambda>(k, n). if id_note n = JStr i
                    then (spread n u)\<lparr>updatedAt := Date (now k)\<rparr> else n)
       (enumerate 0 (notes_state s))"
  by (simp add: updateNote_def Let_def notes_saveNotes)

lemma length_updateNote: "length (notes_state (updateNote now i u s)) = length (notes_state s)"
  by (simp add: notes_updateNote)

lemma nth_updateNote:
  assumes "k < length (notes_state s)"
  shows "notes_state (updateNote now i u s) ! k =
           (if id_note (notes_state s ! k) = JStr i
            then (spread (notes_state s ! k) u)\<lparr>updatedAt := Date (now k)\<rparr>
            else notes_state s ! k)"
  using assms by (simp add: notes_updateNote nth_enumerate_eq)

lemma localStorage_updateNote:
  "localStorage (updateNote now i u s) = Some (JSON_stringify (notes_state (updateNote now i u s)))"
  by (simp add: updateNote_def Let_def saveNotes_def)

lemma in_updateNote:
  assumes "n \<in> set (notes_state (updateNote now i u s))"
  obtains k where "k < length (notes_state s)"
    and "n = (if id_note (notes_state s ! k) = JStr i
              then (spread (notes_state s ! k) u)\<lparr>updatedAt := Date (now k)\<rparr>
              else notes_state s ! k)"
proof -
  from assms obtain k where k: "k < length (notes_state (updateNote now i u s))"
    and n: "notes_state (updateNote now i u s) ! k = n"
    by (auto simp: in_set_conv_nth)
  from k have k': "k < length (notes_state s)" by (simp add: length_updateNote)
  from n nth_updateNote [OF k', of now i u] that k' show thesis by simp
qed

lemma notes_importNotes:
  "notes_state (importNotes incoming s) =
     filter (\<lambda>n. id_note n \<notin> set (map id_note (notes_state s))) incoming @ notes_state s"
  by (simp add: importNotes_def Let_def notes_saveNotes)

lemma notes_createNote:
  "notes_state (snd (createNote a b c s)) = fst (createNote a b c s) # notes_state s"
  by (simp add: createNote_def Let_def notes_saveNotes)

section \<open>Uniqueness of ids (C1)\<close>

text \<open>
  Claim C1. The ids of a collection can repeat. \<open>createNote\<close> takes the id from the
  clock alone, so two calls that read the same millisecond \<open>t\<close> put two notes with the
  same id into any collection. \<open>importNotes\<close> compares the incoming records with the
  existing notes only, never with each other: a file with two records of id 2, imported
  into the mounted store, leaves the ids 2, 2, 1.
\<close>

theorem ids_can_repeat:
  "\<not> distinct (map id_note
        (notes_state (snd (createNote t c2 u2 (snd (createNote t c1 u1 s))))))
   \<and> map id_note (notes_state (fst (handleFileChange fixedReadings
        (Json (Array [exampleRecord ''2'' ''Y'' JUndefined JUndefined JUndefined,
                      exampleRecord ''2'' ''Z'' JUndefined JUndefined JUndefined]))
        (mounted 10 10))))
     = [JStr ''2'', JStr ''2'', JStr ''1'']"
  by (simp add: createNote_def Let_def saveNotes_def handleFileChange_def importNotes_def
      validNotes_def validNote_def js_or_def exampleRecord_def mounted_def welcomeNote_def)

text \<open>
  What the two operations do keep: an import whose records have pairwise different ids
  keeps the ids of the collection different, and so does a creation whose clock text is
  the id of no note yet.
\<close>

lemma importNotes_distinct_batch:
  assumes "distinct (map id_note (notes_state s))" and "distinct (map id_note incoming)"
  shows "distinct (map id_note (notes_state (importNotes incoming s)))"
proof -
  have "distinct (map id_note (filter (\<lambda>n. id_note n \<notin> set (map id_note (notes_state s))) incoming))"
    using assms(2) by (rule distinct_map_filter)
  with assms(1) show ?thesis
    by (auto simp: notes_importNotes)
qed

lemma createNote_fresh_id:
  assumes "distinct (map id_note (notes_state s))"
    and "JStr (toString now_id) \<notin> id_note ` set (notes_state s)"
  shows "distinct (map id_note (notes_state (snd (createNote now_id now_created now_updated s))))"
  using assms by (simp add: createNote_def Let_def saveNotes_def)

section \<open>Saving and loading (C2)\<close>

lemma parsed_stringify_note:
  assumes "survives n"
  shows "parsedNotes [stringify_note n] = [n]"
proof -
  obtain tc where tc: "createdAt n = Date tc"
    using assms by (cases "createdAt n") (auto simp: survives_def)
  obtain tu where tu: "updatedAt n = Date tu"
    using assms by (cases "updatedAt n") (auto simp: survives_def)
  from assms have "truthy (language n)" by (simp add: survives_def)
  then show ?thesis
    by (simp add: parsedNotes_def stringify_note_def js_or_def tc tu)
qed

lemma parsed_stringify:
  "\<forall>n \<in> set ns. survives n \<Longrightarrow> parsedNotes (map stringify_note ns) = ns"
proof (induction ns)
  case Nil
  show ?case by (simp add: parsedNotes_def)
next
  case (Cons n ns)
  then have "parsedNotes (map stringify_note ns) = ns" and "parsedNotes [stringify_note n] = [n]"
    by (simp_all add: parsed_stringify_note)
  then show ?case by (simp add: parsedNotes_def)
qed

lemma load_after_save:
  assumes "\<forall>n \<in> set ns. survives n"
  shows "useNotes_effect now1 now2 (localStorage (saveNotes ns s)) = Inr (saveNotes ns s)"
  using parsed_stringify [OF assms]
  by (simp add: useNotes_effect_def saveNotes_def JSON_stringify_def)

lemma survives_welcomeNote: "survives (welcomeNote a b)"
  by (simp add: survives_def welcomeNote_def)

lemma survives_spread:
  "survives n \<Longrightarrow> upd_language u \<noteq> Some [] \<Longrightarrow> survives ((spread n u)\<lparr>updatedAt := Date now\<rparr>)"
  by (cases "upd_language u") (simp_all add: survives_def spread_def)

lemma tableLanguage_not_empty: "tableLanguage u \<Longrightarrow> upd_language u \<noteq> Some []"
  by (auto simp: tableLanguage_def languages_def)

lemma produced_invariant:
  "produced s \<Longrightarrow>
     (\<forall>n \<in> set (notes_state s). survives n) \<and> localStorage s = Some (JSON_stringify (notes_state s))"
proof (induction rule: produced.induct)
  case (produced_mount now1 now2)
  show ?case by (simp add: mounted_def survives_welcomeNote)
next
  case (produced_create s now_id now_created now_updated)
  then show ?case
    by (simp add: createNote_def Let_def saveNotes_def survives_def)
next
  case (produced_update s u now i)
  from produced_update.hyps(2) have ne: "upd_language u \<noteq> Some []"
    by (rule tableLanguage_not_empty)
  have "survives n" if "n \<in> set (notes_state (updateNote now i u s))" for n
  proof -
    from that obtain k where k: "k < length (notes_state s)"
      and n: "n = (if id_note (notes_state s ! k) = JStr i
                   then (spread (notes_state s ! k) u)\<lparr>updatedAt := Date (now k)\<rparr>
                   else notes_state s ! k)"
      by (rule in_updateNote)
    from k produced_update.IH have "survives (notes_state s ! k)" by simp
    with n ne show ?thesis by (simp add: survives_spread)
  qed
  then show ?case by (simp add: localStorage_updateNote)
next
  case (produced_delete s i)
  then show ?case
    by (simp add: deleteNote_def Let_def saveNotes_def)
qed

text \<open>
  Claim C2. For every store produced from the welcome note by any sequence of
  \<open>createNote\<close>, \<open>updateNote\<close> and \<open>deleteNote\<close> (the language of an update being a tag of
  the editor's table), \<open>localStorage\<close> holds the JSON text of the collection in
  memory, and mounting the hook on it gives back that very store: every note with every
  field, the timestamps to the millisecond.
\<close>

theorem load_after_save_round_trip:
  assumes "produced s"
  shows "localStorage s = Some (JSON_stringify (notes_state s))
       \<and> useNotes_effect now1 now2 (localStorage s) = Inr s"
proof -
  from produced_invariant [OF assms]
  have inv: "\<forall>n \<in> set (notes_state s). survives n"
    and sto: "localStorage s = Some (JSON_stringify (notes_state s))" by simp_all
  have "saveNotes (notes_state s) s = s"
    by (simp add: saveNotes_def sto)
  with load_after_save [OF inv, of now1 now2 s] sto show ?thesis by simp
qed

text \<open>
  An example for C2: the welcome note, its content replaced and its language set to
  \<open>lua\<close>, then a second note created.
\<close>

theorem load_after_save_round_trip_witness:
  "produced (snd (createNote 50 50 50
      (updateNote (\<lambda>k. 30) ''1''
         (noUpdates\<lparr>upd_content := Some ''hello'', upd_language := Some ''lua''\<rparr>)
         (mounted 10 10))))
   \<and> useNotes_effect 60 60
        (localStorage (snd (createNote 50 50 50
           (updateNote (\<lambda>k. 30) ''1''
              (noUpdates\<lparr>upd_content := Some ''hello'', upd_language := Some ''lua''\<rparr>)
              (mounted 10 10)))))
      = Inr (snd (createNote 50 50 50
           (updateNote (\<lambda>k. 30) ''1''
              (noUpdates\<lparr>upd_content := Some ''hello'', upd_language := Some ''lua''\<rparr>)
              (mounted 10 10))))"
proof -
  have t: "tableLanguage (noUpdates\<lparr>upd_content := Some ''hello'', upd_language := Some ''lua''\<rparr>)"
    by (simp add: tableLanguage_def languages_def)
  have p: "produced (snd (createNote 50 50 50
      (updateNote (\<lambda>k. 30) ''1''
         (noUpdates\<lparr>upd_content := Some ''hello'', upd_language := Some ''lua''\<rparr>)
         (mounted 10 10))))"
    by (rule produced_create [OF produced_update [OF produced_mount t]])
  from p load_after_save_round_trip [OF p, of 60 60] show ?thesis by blast
qed

section \<open>Import (C3)\<close>

text \<open>
  Claim C3. After \<open>importNotes\<close> the collection is the incoming records whose id no
  existing note has, in their import order, followed by the existing collection itself:
  a record whose id exists is dropped, and the existing notes are kept as they were.
  The same holds for the file handler, on the normalised records of the file.
\<close>

theorem importNotes_existing_wins:
  "notes_state (importNotes incoming s) =
     filter (\<lambda>n. \<forall>m \<in> set (notes_state s). id_note m \<noteq> id_note n) incoming @ notes_state s
   \<and> notes_state (fst (handleFileChange env (Json (Array js)) s)) =
     filter (\<lambda>n. \<forall>m \<in> set (notes_state s). id_note m \<noteq> id_note n) (validNotes env js)
       @ notes_state s
   \<and> localStorage (importNotes incoming s) =
       Some (JSON_stringify (notes_state (importNotes incoming s)))"
proof -
  have p: "(\<lambda>n. id_note n \<notin> set (map id_note (notes_state s))) =
           (\<lambda>n. \<forall>m \<in> set (notes_state s). id_note m \<noteq> id_note n)"
    by (rule ext) (simp add: image_iff, metis)
  have a: "notes_state (importNotes incoming s) =
     filter (\<lambda>n. \<forall>m \<in> set (notes_state s). id_note m \<noteq> id_note n) incoming @ notes_state s"
    for incoming
    unfolding notes_importNotes p ..
  have b: "fst (handleFileChange env (Json (Array js)) s) = importNotes (validNotes env js) s"
    by (simp add: handleFileChange_def)
  have c: "localStorage (importNotes incoming s) =
       Some (JSON_stringify (notes_state (importNotes incoming s)))"
    by (simp add: importNotes_def Let_def saveNotes_def)
  show ?thesis
    unfolding b using a c by blast
qed

text \<open>
  The scenario of C3: the collection holds a note with id 1 and title A; the file holds
  records with ids 1 (title X) and 2 (title Y).
\<close>

theorem importNotes_scenario_witness:
  "notes_state (fst (handleFileChange fixedReadings
      (Json (Array [exampleRecord ''1'' ''X'' JUndefined JUndefined JUndefined,
                    exampleRecord ''2'' ''Y'' JUndefined JUndefined JUndefined]))
      \<lparr>notes_state = [exampleNote ''1'' ''A'' '''' 1000], localStorage = None\<rparr>))
   = [\<lparr>id_note = JStr ''2'', title = JStr ''Y'', content = JStr [],
       language = JStr ''plaintext'', createdAt = Date 5000, updatedAt = Date 5000\<rparr>,
      exampleNote ''1'' ''A'' '''' 1000]"
  using importNotes_existing_wins [of "[]"
      "\<lparr>notes_state = [exampleNote ''1'' ''A'' '''' 1000], localStorage = None\<rparr>"
      fixedReadings
      "[exampleRecord ''1'' ''X'' JUndefined JUndefined JUndefined,
        exampleRecord ''2'' ''Y'' JUndefined JUndefined JUndefined]"]
  by (simp add: exampleNote_def exampleRecord_def validNotes_def validNote_def js_or_def
      fixedReadings_def TimeClip_def maxTime_def)

section \<open>A stored value that is not JSON (C4)\<close>

text \<open>
  Claim C4. On the stored value \<open>not json\<close> the mount effect ends with the SyntaxError of
  \<open>JSON.parse\<close>: no store results and no welcome note is seeded, as it is for an absent
  key. The import handler, given the same text, catches the error, alerts, and leaves
  the store as it was.
\<close>

theorem malformed_storage_throws:
  "useNotes_effect now1 now2 (Some (NotJson ''not json'')) = Inl SyntaxError
   \<and> useNotes_effect now1 now2 None = Inr (mounted now1 now2)
   \<and> handleFileChange env (NotJson ''not json'') s = (s, True)"
  by (simp add: useNotes_effect_def handleFileChange_def mounted_def)

section \<open>Update (C5)\<close>

text \<open>
  Claim C5, amended. \<open>updateNote now i u\<close> keeps the length of the collection and every
  note with another id. In a note with id \<open>i\<close>, at index \<open>k\<close>, id and \<open>createdAt\<close> stay, each
  of title, content and language becomes the given value when \<open>u\<close> gives one and stays
  otherwise, and \<open>updatedAt\<close> becomes the clock reading \<open>now k\<close> taken for that note. When
  the note was last updated at \<open>T0\<close>, the new \<open>updatedAt\<close> is greater than \<open>T0\<close> exactly
  when that reading is later than \<open>T0\<close>. The collection is written through to
  \<open>localStorage\<close>.
\<close>

theorem updateNote_merges_fields:
  "length (notes_state (updateNote now i u s)) = length (notes_state s)
   \<and> (\<forall>k < length (notes_state s).
        (id_note (notes_state s ! k) \<noteq> JStr i \<longrightarrow>
           notes_state (updateNote now i u s) ! k = notes_state s ! k)
        \<and> (id_note (notes_state s ! k) = JStr i \<longrightarrow>
           id_note (notes_state (updateNote now i u s) ! k) = id_note (notes_state s ! k)
           \<and> createdAt (notes_state (updateNote now i u s) ! k) = createdAt (notes_state s ! k)
           \<and> title (notes_state (updateNote now i u s) ! k) =
               (case upd_title u of None \<Rightarrow> title (notes_state s ! k) | Some v \<Rightarrow> JStr v)
           \<and> content (notes_state (updateNote now i u s) ! k) =
               (case upd_content u of None \<Rightarrow> content (notes_state s ! k) | Some v \<Rightarrow> JStr v)
           \<and> language (notes_state (updateNote now i u s) ! k) =
               (case upd_language u of None \<Rightarrow> language (notes_state s ! k) | Some v \<Rightarrow> JStr v)
           \<and> updatedAt (notes_state (updateNote now i u s) ! k) = Date (now k)
           \<and> (\<forall>T0. updatedAt (notes_state s ! k) = Date T0 \<longrightarrow>
                 date_less (updatedAt (notes_state s ! k))
                   (updatedAt (notes_state (updateNote now i u s) ! k)) = (T0 < now k))))
   \<and> localStorage (updateNote now i u s) =
       Some (JSON_stringify (notes_state (updateNote now i u s)))"
proof -
  have each: "\<forall>k < length (notes_state s).
        (id_note (notes_state s ! k) \<noteq> JStr i \<longrightarrow>
           notes_state (updateNote now i u s) ! k = notes_state s ! k)
        \<and> (id_note (notes_state s ! k) = JStr i \<longrightarrow>
           id_note (notes_state (updateNote now i u s) ! k) = id_note (notes_state s ! k)
           \<and> createdAt (notes_state (updateNote now i u s) ! k) = createdAt (notes_state s ! k)
           \<and> title (notes_state (updateNote now i u s) ! k) =
               (case upd_title u of None \<Rightarrow> title (notes_state s ! k) | Some v \<Rightarrow> JStr v)
           \<and> content (notes_state (updateNote now i u s) ! k) =
               (case upd_content u of None \<Rightarrow> content (notes_state s ! k) | Some v \<Rightarrow> JStr v)
           \<and> language (notes_state (updateNote now i u s) ! k) =
               (case upd_language u of None \<Rightarrow> language (notes_state s ! k) | Some v \<Rightarrow> JStr v)
           \<and> updatedAt (notes_state (updateNote now i u s) ! k) = Date (now k)
           \<and> (\<forall>T0. updatedAt (notes_state s ! k) = Date T0 \<longrightarrow>
                 date_less (updatedAt (notes_state s ! k))
                   (updatedAt (notes_state (updateNote now i u s) ! k)) = (T0 < now k)))"
    by (simp add: nth_updateNote spread_def)
  from length_updateNote [of now i u s] each localStorage_updateNote [of now i u s]
  show ?thesis by blast
qed

text \<open>
  An example for the amended C5: content \<open>hello\<close> written at reading 2000 into a note with
  empty content last updated at 1000; the new \<open>updatedAt\<close> is 2000, later than 1000.
\<close>

theorem updateNote_scenario_witness:
  "notes_state (updateNote (\<lambda>k. 2000) ''1'' (noUpdates\<lparr>upd_content := Some ''hello''\<rparr>)
      \<lparr>notes_state = [exampleNote ''1'' ''A'' '''' 1000], localStorage = None\<rparr>)
     = [(exampleNote ''1'' ''A'' ''hello'' 2000)]
   \<and> date_less (Date 1000)
        (updatedAt (notes_state (updateNote (\<lambda>k. 2000) ''1'' (noUpdates\<lparr>upd_content := Some ''hello''\<rparr>)
           \<lparr>notes_state = [exampleNote ''1'' ''A'' '''' 1000], localStorage = None\<rparr>) ! 0))"
  using updateNote_merges_fields [of "\<lambda>k. 2000" "''1''" "noUpdates\<lparr>upd_content := Some ''hello''\<rparr>"
      "\<lparr>notes_state = [exampleNote ''1'' ''A'' '''' 1000], localStorage = None\<rparr>"]
  by (simp add: exampleNote_def noUpdates_def notes_updateNote spread_def)

text \<open>
  Claim C5 as stated fails in its scenario when the update is made within the
  millisecond of \<open>T0\<close>: on a note with empty content last updated at 1000, an update
  read at 1000 writes the content \<open>hello\<close> and leaves \<open>updatedAt\<close> at 1000, which is not
  greater than \<open>T0\<close>.
\<close>

theorem same_millisecond_update_counterexample:
  "notes_state (updateNote (\<lambda>k. 1000) ''1'' (noUpdates\<lparr>upd_content := Some ''hello''\<rparr>)
      \<lparr>notes_state = [exampleNote ''1'' ''A'' '''' 1000], localStorage = None\<rparr>)
     = [(exampleNote ''1'' ''A'' ''hello'' 1000)]
   \<and> updatedAt (exampleNote ''1'' ''A'' '''' 1000) = Date 1000
   \<and> \<not> date_less (Date 1000) (updatedAt (exampleNote ''1'' ''A'' ''hello'' 1000))"
  by (simp add: exampleNote_def noUpdates_def notes_updateNote spread_def)

section \<open>An id that no note has (C6)\<close>

text \<open>
  Claim C6. When no note of the collection has the id \<open>i\<close>, \<open>updateNote\<close> and
  \<open>deleteNote\<close> leave the collection as it is, in length and in contents. Both are
  total functions into stores: there is no error result, and nothing is inserted.
\<close>

theorem missing_id_is_noop:
  assumes "JStr i \<notin> id_note ` set (notes_state s)"
  shows "notes_state (updateNote now i u s) = notes_state s
       \<and> notes_state (deleteNote i s) = notes_state s
       \<and> length (notes_state (updateNote now i u s)) = length (notes_state s)
       \<and> length (notes_state (deleteNote i s)) = length (notes_state s)"
proof -
  from assms have ne: "\<forall>n \<in> set (notes_state s). id_note n \<noteq> JStr i"
    by (metis imageI)
  have upd: "notes_state (updateNote now i u s) = notes_state s"
  proof (rule nth_equalityI)
    show "length (notes_state (updateNote now i u s)) = length (notes_state s)"
      by (rule length_updateNote)
  next
    fix k assume "k < length (notes_state (updateNote now i u s))"
    then have k: "k < length (notes_state s)" by (simp add: length_updateNote)
    with ne have "id_note (notes_state s ! k) \<noteq> JStr i" by simp
    with k show "notes_state (updateNote now i u s) ! k = notes_state s ! k"
      by (simp add: nth_updateNote)
  qed
  have del: "notes_state (deleteNote i s) = notes_state s"
    unfolding notes_deleteNote using ne by simp
  from upd del show ?thesis by simp
qed

text \<open>
  An example for C6: id 9 on the mounted store, whose only note has id 1.
\<close>

theorem missing_id_is_noop_witness:
  "JStr ''9'' \<notin> id_note ` set (notes_state (mounted 10 10))
   \<and> notes_state (updateNote (\<lambda>k. 20) ''9'' (noUpdates\<lparr>upd_title := Some ''X''\<rparr>) (mounted 10 10))
       = [welcomeNote 10 10]
   \<and> notes_state (deleteNote ''9'' (mounted 10 10)) = [welcomeNote 10 10]"
  using missing_id_is_noop [of "''9''" "mounted 10 10" "\<lambda>k. 20" "noUpdates\<lparr>upd_title := Some ''X''\<rparr>"]
  by (simp add: mounted_def welcomeNote_def)

section \<open>Create (C7)\<close>

text \<open>
  Claim C7. \<open>createNote\<close> returns a note titled \<open>Untitled Note\<close> with empty content,
  language \<open>plaintext\<close>, an id that is the decimal text of the clock reading, and each
  timestamp the reading of the clock taken for it; the note is put in front of the
  collection, and the whole new collection is written to \<open>localStorage\<close>. Two calls on
  the empty collection leave two notes: the second call's note at index 0, the first
  call's note at index 1.
\<close>

theorem createNote_prepends_and_returns:
  "fst (createNote now_id now_created now_updated s) =
     \<lparr>id_note = JStr (toString now_id), title = JStr ''Untitled Note'', content = JStr [],
      language = JStr ''plaintext'', createdAt = Date now_created,
      updatedAt = Date now_updated\<rparr>
   \<and> notes_state (snd (createNote now_id now_created now_updated s)) =
       fst (createNote now_id now_created now_updated s) # notes_state s
   \<and> localStorage (snd (createNote now_id now_created now_updated s)) =
       Some (JSON_stringify (fst (createNote now_id now_created now_updated s) # notes_state s))
   \<and> notes_state (snd (createNote b1 b2 b3 (snd (createNote a1 a2 a3 emptyStore)))) =
       [fst (createNote b1 b2 b3 (snd (createNote a1 a2 a3 emptyStore))),
        fst (createNote a1 a2 a3 emptyStore)]"
  by (simp add: createNote_def Let_def saveNotes_def emptyStore_def)

lemma toString_100: "toString 100 = ''100''" by code_simp

lemma toString_200: "toString 200 = ''200''" by code_simp

text \<open>
  An example for C7: creating at the readings 100 and then 200.
\<close>

theorem createNote_twice_witness:
  "map id_note (notes_state (snd (createNote 200 200 200 (snd (createNote 100 100 100 emptyStore)))))
     = [JStr ''200'', JStr ''100'']"
  using createNote_prepends_and_returns [of 200 200 200 emptyStore 200 200 200 100 100 100]
  by (simp add: createNote_def Let_def saveNotes_def emptyStore_def toString_100 toString_200)

section \<open>The language of a loaded note (C8)\<close>

text \<open>
  Claim C8, amended. Mounting on a stored array gives one note per record, and the
  language of each is \<open>plaintext\<close> when the stored language is falsy (absent, \<open>null\<close>,
  the empty string, \<open>false\<close>, 0) and the stored value itself otherwise. So when every stored
  language is falsy or a tag of the editor's table, every loaded note has a tag of
  the table.
\<close>

theorem load_defaults_falsy_language_only:
  "useNotes_effect now1 now2 (Some (Json (Array js))) =
     Inr \<lparr>notes_state = parsedNotes js, localStorage = Some (Json (Array js))\<rparr>
   \<and> map language (parsedNotes js) =
       map (\<lambda>j. if truthy (j_language j) then j_language j else JStr ''plaintext'') js
   \<and> ((\<forall>j \<in> set js. \<not> truthy (j_language j) \<or> j_language j \<in> JStr ` set languages) \<longrightarrow>
        (\<forall>n \<in> set (parsedNotes js). language n \<in> JStr ` set languages))"
proof -
  have a: "useNotes_effect now1 now2 (Some (Json (Array js))) =
     Inr \<lparr>notes_state = parsedNotes js, localStorage = Some (Json (Array js))\<rparr>"
    by (simp add: useNotes_effect_def)
  have b: "map language (parsedNotes js) =
       map (\<lambda>j. if truthy (j_language j) then j_language j else JStr ''plaintext'') js"
    by (simp add: parsedNotes_def js_or_def comp_def)
  have p: "JStr ''plaintext'' \<in> JStr ` set languages"
    by (simp add: languages_def)
  have c: "\<forall>n \<in> set (parsedNotes js). language n \<in> JStr ` set languages"
    if h: "\<forall>j \<in> set js. \<not> truthy (j_language j) \<or> j_language j \<in> JStr ` set languages"
  proof
    fix n assume "n \<in> set (parsedNotes js)"
    then have "language n \<in> set (map language (parsedNotes js))" by simp
    then obtain j where "j \<in> set js"
      and "language n = (if truthy (j_language j) then j_language j else JStr ''plaintext'')"
      unfolding b by auto
    with h p show "language n \<in> JStr ` set languages" by (cases "truthy (j_language j)") auto
  qed
  from a b c show ?thesis by blast
qed

text \<open>
  An example for the amended C8: an absent language, an empty one, and \<open>lua\<close>.
\<close>

theorem load_language_witness:
  "map language (parsedNotes [exampleRecord ''1'' ''A'' JUndefined JNull JNull,
                              exampleRecord ''2'' ''B'' (JStr '''') JNull JNull,
                              exampleRecord ''3'' ''C'' (JStr ''lua'') JNull JNull])
     = [JStr ''plaintext'', JStr ''plaintext'', JStr ''lua'']"
  using load_defaults_falsy_language_only [of 0 0
      "[exampleRecord ''1'' ''A'' JUndefined JNull JNull,
        exampleRecord ''2'' ''B'' (JStr '''') JNull JNull,
        exampleRecord ''3'' ''C'' (JStr ''lua'') JNull JNull]"]
  by (simp add: exampleRecord_def)

text \<open>
  Claim C8 as stated fails: a record stored with the language \<open>klingon\<close>, which is not
  in the table, is loaded with the language \<open>klingon\<close>.
\<close>

theorem unrecognized_language_counterexample:
  "useNotes_effect 0 0
      (Some (Json (Array [exampleRecord ''1'' ''A'' (JStr ''klingon'') (JIso 5) (JIso 5)])))
   = Inr \<lparr>notes_state = [\<lparr>id_note = JStr ''1'', title = JStr ''A'', content = JStr [],
                           language = JStr ''klingon'', createdAt = Date 5, updatedAt = Date 5\<rparr>],
          localStorage = Some (Json (Array [exampleRecord ''1'' ''A'' (JStr ''klingon'') (JIso 5) (JIso 5)]))\<rparr>
   \<and> ''klingon'' \<notin> set languages"
  by (simp add: useNotes_effect_def parsedNotes_def js_or_def exampleRecord_def languages_def)

section \<open>The order of the two timestamps (C9)\<close>

lemma date_le_Date_mono: "date_le d (Date t) \<Longrightarrow> t \<le> t' \<Longrightarrow> date_le d (Date t')"
  by (cases d) simp_all

lemma date_le_trans: "date_le a b \<Longrightarrow> date_le b c \<Longrightarrow> date_le a c"
  by (cases a; cases b; cases c) simp_all

lemma date_le_refl: "date_le d (Date t) \<Longrightarrow> date_le d d"
  by (cases d) simp_all

lemma in_order_mono: "in_order t n \<Longrightarrow> t \<le> t' \<Longrightarrow> in_order t' n"
  by (auto simp: in_order_def intro: date_le_Date_mono)

text \<open>
  A record that carries no timestamps of its own is \<open>in_order\<close> once normalised, the
  clock not going back between its two readings.
\<close>

lemma in_order_without_timestamps:
  assumes "\<not> truthy (j_createdAt j)" and "\<not> truthy (j_updatedAt j)"
    and "r_now_created r \<le> r_now_updated r" and "r_now_updated r \<le> t"
    and "abs (r_now_created r) \<le> maxTime" and "abs (r_now_updated r) \<le> maxTime"
  shows "in_order t (validNote r j)"
  using assms by (simp add: in_order_def validNote_def js_or_def TimeClip_def)

lemma clocked_invariant: "clocked t s \<Longrightarrow> \<forall>n \<in> set (notes_state s). in_order t n"
proof (induction rule: clocked.induct)
  case (clocked_mount now1 now2)
  then show ?case by (simp add: mounted_def welcomeNote_def in_order_def)
next
  case (clocked_load js t)
  then show ?case by simp
next
  case (clocked_create t s now_id now_created now_updated)
  then have "t \<le> now_updated" by simp
  with clocked_create show ?case
    by (auto simp: createNote_def Let_def saveNotes_def in_order_def intro: date_le_Date_mono)
next
  case (clocked_update t s t' now i u)
  show ?case
  proof
    fix n assume "n \<in> set (notes_state (updateNote now i u s))"
    then obtain k where k: "k < length (notes_state s)"
      and n: "n = (if id_note (notes_state s ! k) = JStr i
                   then (spread (notes_state s ! k) u)\<lparr>updatedAt := Date (now k)\<rparr>
                   else notes_state s ! k)"
      by (rule in_updateNote)
    from k clocked_update.IH have m: "in_order t (notes_state s ! k)" by simp
    from k clocked_update.hyps(3) have r: "t \<le> now k" "now k \<le> t'" by simp_all
    from m have cm: "date_le (createdAt (notes_state s ! k)) (updatedAt (notes_state s ! k))"
      and um: "date_le (updatedAt (notes_state s ! k)) (Date t)" by (simp_all add: in_order_def)
    from um r(1) have "date_le (updatedAt (notes_state s ! k)) (Date (now k))"
      by (rule date_le_Date_mono)
    with cm have "date_le (createdAt (notes_state s ! k)) (Date (now k))"
      by (rule date_le_trans)
    with r(2) in_order_mono [OF m clocked_update.hyps(2)] n show "in_order t' n"
      by (simp add: in_order_def spread_def)
  qed
next
  case (clocked_delete t s i)
  then show ?case by (simp add: deleteNote_def Let_def saveNotes_def)
next
  case (clocked_import t s t' env js)
  then show ?case
    by (auto simp: handleFileChange_def notes_importNotes intro: in_order_mono)
qed

text \<open>
  Claim C9, amended. Take the stores reached by mounting, \<open>createNote\<close>, \<open>updateNote\<close>,
  \<open>deleteNote\<close> and imports while the readings of the clock never decrease, \<open>t\<close> being the
  latest reading, and while every note that storage or an import file brings in has,
  once normalised (what is missing filled with the current time), \<open>createdAt\<close> no later
  than \<open>updatedAt\<close> and \<open>updatedAt\<close> no later than the clock at its arrival. In each of these stores every note has \<open>createdAt\<close> no later
  than \<open>updatedAt\<close>; and an update whose readings are no earlier than \<open>t\<close> leaves every
  note, position by position, with the same id, the same \<open>createdAt\<close>, and an
  \<open>updatedAt\<close> no earlier than before.
\<close>

theorem timestamps_ordered_under_monotone_clock:
  assumes "clocked t s"
  shows "(\<forall>n \<in> set (notes_state s). date_le (createdAt n) (updatedAt n))
       \<and> (\<forall>now i u. (\<forall>k < length (notes_state s). t \<le> now k) \<longrightarrow>
            list_all2 (\<lambda>old new. date_le (updatedAt old) (updatedAt new)
                               \<and> createdAt new = createdAt old \<and> id_note new = id_note old)
              (notes_state s) (notes_state (updateNote now i u s)))"
proof -
  note inv = clocked_invariant [OF assms]
  have ord: "\<forall>n \<in> set (notes_state s). date_le (createdAt n) (updatedAt n)"
    using inv by (simp add: in_order_def)
  have step: "list_all2 (\<lambda>old new. date_le (updatedAt old) (updatedAt new)
                               \<and> createdAt new = createdAt old \<and> id_note new = id_note old)
              (notes_state s) (notes_state (updateNote now i u s))"
    if later: "\<forall>k < length (notes_state s). t \<le> now k" for now i u
  proof (rule list_all2_all_nthI)
    show "length (notes_state s) = length (notes_state (updateNote now i u s))"
      by (simp add: length_updateNote)
  next
    fix k assume k: "k < length (notes_state s)"
    with inv have "date_le (updatedAt (notes_state s ! k)) (Date t)"
      by (simp add: in_order_def)
    moreover from k later have "t \<le> now k" by simp
    ultimately have "date_le (updatedAt (notes_state s ! k)) (Date (now k))"
      and "date_le (updatedAt (notes_state s ! k)) (updatedAt (notes_state s ! k))"
      by (blast intro: date_le_Date_mono date_le_refl)+
    with k show "date_le (updatedAt (notes_state s ! k))
                   (updatedAt (notes_state (updateNote now i u s) ! k))
               \<and> createdAt (notes_state (updateNote now i u s) ! k) = createdAt (notes_state s ! k)
               \<and> id_note (notes_state (updateNote now i u s) ! k) = id_note (notes_state s ! k)"
      by (simp add: nth_updateNote spread_def)
  qed
  from ord step show ?thesis by blast
qed

text \<open>
  An example for the amended C9: the welcome note of reading 10 is updated at reading
  30, and at reading 5000 a file is imported whose one record carries no timestamps.
\<close>

theorem timestamps_ordered_witness:
  "clocked 5000 (fst (handleFileChange fixedReadings
      (Json (Array [exampleRecord ''2'' ''Y'' JUndefined JUndefined JUndefined]))
      (updateNote (\<lambda>k. 30) ''1'' (noUpdates\<lparr>upd_content := Some ''hello''\<rparr>) (mounted 10 10))))
   \<and> map (\<lambda>n. (createdAt n, updatedAt n))
        (notes_state (fst (handleFileChange fixedReadings
           (Json (Array [exampleRecord ''2'' ''Y'' JUndefined JUndefined JUndefined]))
           (updateNote (\<lambda>k. 30) ''1'' (noUpdates\<lparr>upd_content := Some ''hello''\<rparr>) (mounted 10 10)))))
      = [(Date 5000, Date 5000), (Date 10, Date 30)]
   \<and> list_all (\<lambda>n. date_le (createdAt n) (updatedAt n))
        (notes_state (fst (handleFileChange fixedReadings
           (Json (Array [exampleRecord ''2'' ''Y'' JUndefined JUndefined JUndefined]))
           (updateNote (\<lambda>k. 30) ''1'' (noUpdates\<lparr>upd_content := Some ''hello''\<rparr>) (mounted 10 10)))))"
proof -
  have u: "clocked 30 (updateNote (\<lambda>k. 30) ''1'' (noUpdates\<lparr>upd_content := Some ''hello''\<rparr>) (mounted 10 10))"
    by (rule clocked_update [OF clocked_mount, of 10 10]) simp_all
  have r: "\<forall>n \<in> set (validNotes fixedReadings
               [exampleRecord ''2'' ''Y'' JUndefined JUndefined JUndefined]).
             id_note n \<in> set (map id_note (notes_state
               (updateNote (\<lambda>k. 30) ''1'' (noUpdates\<lparr>upd_content := Some ''hello''\<rparr>) (mounted 10 10))))
             \<or> in_order 5000 n"
    by (simp add: validNotes_def in_order_without_timestamps exampleRecord_def
        fixedReadings_def maxTime_def)
  have c: "clocked 5000 (fst (handleFileChange fixedReadings
      (Json (Array [exampleRecord ''2'' ''Y'' JUndefined JUndefined JUndefined]))
      (updateNote (\<lambda>k. 30) ''1'' (noUpdates\<lparr>upd_content := Some ''hello''\<rparr>) (mounted 10 10))))"
    by (rule clocked_import [OF u _ r]) simp
  have e: "map (\<lambda>n. (createdAt n, updatedAt n))
        (notes_state (fst (handleFileChange fixedReadings
           (Json (Array [exampleRecord ''2'' ''Y'' JUndefined JUndefined JUndefined]))
           (updateNote (\<lambda>k. 30) ''1'' (noUpdates\<lparr>upd_content := Some ''hello''\<rparr>) (mounted 10 10)))))
      = [(Date 5000, Date 5000), (Date 10, Date 30)]"
    by (simp add: handleFileChange_def notes_importNotes notes_updateNote validNotes_def
        validNote_def js_or_def TimeClip_def maxTime_def exampleRecord_def fixedReadings_def
        mounted_def welcomeNote_def spread_def noUpdates_def)
  from timestamps_ordered_under_monotone_clock [OF c]
  have "list_all (\<lambda>n. date_le (createdAt n) (updatedAt n))
        (notes_state (fst (handleFileChange fixedReadings
           (Json (Array [exampleRecord ''2'' ''Y'' JUndefined JUndefined JUndefined]))
           (updateNote (\<lambda>k. 30) ''1'' (noUpdates\<lparr>upd_content := Some ''hello''\<rparr>) (mounted 10 10)))))"
    unfolding list_all_iff by blast
  with c e show ?thesis by blast
qed

text \<open>
  Claim C9 as stated fails in three ways, one for each condition of the amended claim.
  A record imported with \<open>createdAt\<close> 2000 and \<open>updatedAt\<close> 1000 enters the collection as
  it is, the normalisation filling only what is missing. When the clock is set back,
  an update read at 1000 of the welcome note created at 2000 leaves \<open>updatedAt\<close> earlier
  than \<open>createdAt\<close>, and earlier than it was. And a record imported at reading 5000 with
  both timestamps at 9000, then updated at reading 6000, ends the same way.
\<close>

theorem timestamps_out_of_order_counterexample:
  "map (\<lambda>n. (createdAt n, updatedAt n))
     (notes_state (fst (handleFileChange fixedReadings
        (Json (Array [exampleRecord ''2'' ''Y'' JUndefined (JIso 2000) (JIso 1000)]))
        (mounted 10 10))))
   = [(Date 2000, Date 1000), (Date 10, Date 10)]
   \<and> \<not> date_le (Date 2000) (Date 1000)
   \<and> map (\<lambda>n. (createdAt n, updatedAt n))
        (notes_state (updateNote (\<lambda>k. 1000) ''1'' noUpdates (mounted 2000 2000)))
      = [(Date 2000, Date 1000)]
   \<and> map (\<lambda>n. (createdAt n, updatedAt n))
        (notes_state (updateNote (\<lambda>k. 6000) ''2'' noUpdates
           (fst (handleFileChange fixedReadings
              (Json (Array [exampleRecord ''2'' ''Y'' JUndefined (JIso 9000) (JIso 9000)]))
              (mounted 10 10)))))
      = [(Date 9000, Date 6000), (Date 10, Date 10)]
   \<and> \<not> date_le (Date 9000) (Date 6000)"
  by (simp add: handleFileChange_def notes_importNotes notes_updateNote validNotes_def
      validNote_def js_or_def exampleRecord_def mounted_def welcomeNote_def spread_def
      noUpdates_def)

section \<open>Delete (C10)\<close>

text \<open>
  Claim C10. \<open>deleteNote i\<close> keeps exactly the notes whose id differs from \<open>i\<close>: no note
  with id \<open>i\<close> is left (every match goes, not only the first), every other note is still
  there, the notes with another id are the same ones in the same order, the collection
  is written through to \<open>localStorage\<close>, and deleting the same id again changes nothing.
\<close>

theorem deleteNote_removes_every_match:
  "notes_state (deleteNote i s) = filter (\<lambda>n. id_note n \<noteq> JStr i) (notes_state s)
   \<and> (\<forall>n \<in> set (notes_state (deleteNote i s)). id_note n \<noteq> JStr i)
   \<and> (\<forall>n \<in> set (notes_state s). id_note n \<noteq> JStr i \<longrightarrow> n \<in> set (notes_state (deleteNote i s)))
   \<and> filter (\<lambda>n. id_note n \<noteq> JStr i) (notes_state (deleteNote i s)) =
       filter (\<lambda>n. id_note n \<noteq> JStr i) (notes_state s)
   \<and> localStorage (deleteNote i s) = Some (JSON_stringify (notes_state (deleteNote i s)))
   \<and> deleteNote i (deleteNote i s) = deleteNote i s"
proof -
  have a: "notes_state (deleteNote i s) = filter (\<lambda>n. id_note n \<noteq> JStr i) (notes_state s)"
    by (rule notes_deleteNote)
  have b: "\<forall>n \<in> set (notes_state (deleteNote i s)). id_note n \<noteq> JStr i"
    by (simp add: a)
  have c: "\<forall>n \<in> set (notes_state s). id_note n \<noteq> JStr i \<longrightarrow> n \<in> set (notes_state (deleteNote i s))"
    by (simp add: a)
  have d: "filter (\<lambda>n. id_note n \<noteq> JStr i) (notes_state (deleteNote i s)) =
       filter (\<lambda>n. id_note n \<noteq> JStr i) (notes_state s)"
    by (simp add: a)
  have e: "localStorage (deleteNote i s) = Some (JSON_stringify (notes_state (deleteNote i s)))"
    by (simp add: deleteNote_def Let_def saveNotes_def)
  have f: "deleteNote i (deleteNote i s) = deleteNote i s"
    by (simp add: deleteNote_def Let_def saveNotes_def)
  from a b c d e f show ?thesis by blast
qed

text \<open>
  An example for C10: of three notes with ids 1, 2, 1 only the second is left.
\<close>

theorem deleteNote_witness:
  "notes_state (deleteNote ''1''
      \<lparr>notes_state = [exampleNote ''1'' ''A'' '''' 0, exampleNote ''2'' ''B'' '''' 0,
                       exampleNote ''1'' ''C'' '''' 0], localStorage = None\<rparr>)
     = [exampleNote ''2'' ''B'' '''' 0]"
  using deleteNote_removes_every_match [of "''1''"
      "\<lparr>notes_state = [exampleNote ''1'' ''A'' '''' 0, exampleNote ''2'' ''B'' '''' 0,
                       exampleNote ''1'' ''C'' '''' 0], localStorage = None\<rparr>"]
  by (simp add: exampleNote_def)

end
